theory Spec2Isabelle
  imports Complex_Main
begin

section \<open>Python values shared by the two scripts\<close>

text \<open>
  Both scripts handle dynamically typed values: what the extraction library returns, what
  \<^verbatim>\<open>json.loads\<close> builds from a response, and the dict literals the scripts write
  themselves. \<open>PyDict\<close> keeps its items in insertion order, as a Python dict does; only
  string keys occur. \<open>PyObject c\<close> is an instance of some other class \<open>c\<close>: it is truthy,
  has no \<^verbatim>\<open>get\<close> method and no JSON encoding.
\<close>

datatype py_float = Finite real | PosInf | NegInf | NaN

datatype py_value =
    PyNone
  | PyBool bool
  | PyInt int
  | PyFloat py_float
  | PyStr string
  | PyList "py_value list"
  | PyDict "(string \<times> py_value) list"
  | PyObject string

text \<open>
  A raised exception, by the name of its class. \<open>Exc\<close> is an instance of
  \<^verbatim>\<open>Exception\<close> (so \<^verbatim>\<open>except Exception\<close> catches it); \<open>BaseExc\<close> is one of the
  classes that derive from \<^verbatim>\<open>BaseException\<close> only (\<^verbatim>\<open>KeyboardInterrupt\<close>,
  \<^verbatim>\<open>SystemExit\<close>, \<^verbatim>\<open>GeneratorExit\<close>), which \<^verbatim>\<open>except Exception\<close> lets through.
\<close>

datatype py_exc = Exc string | BaseExc string

fun is_Exception :: "py_exc \<Rightarrow> bool" where
  "is_Exception (Exc _) = True"
| "is_Exception (BaseExc _) = False"

text \<open>Truth value testing, as \<^verbatim>\<open>not x\<close> and \<^verbatim>\<open>x or y\<close> use it.\<close>

fun truthy :: "py_value \<Rightarrow> bool" where
  "truthy PyNone = False"
| "truthy (PyBool b) = b"
| "truthy (PyInt n) = (n \<noteq> 0)"
| "truthy (PyFloat f) = (f \<noteq> Finite 0)"
| "truthy (PyStr s) = (s \<noteq> [])"
| "truthy (PyList xs) = (xs \<noteq> [])"
| "truthy (PyDict kvs) = (kvs \<noteq> [])"
| "truthy (PyObject _) = True"

definition py_or :: "py_value \<Rightarrow> py_value \<Rightarrow> py_value" where
  "py_or a b = (if truthy a then a else b)"

text \<open>\<^verbatim>\<open>d.get(k, default)\<close> on the items of a dict: never raises.\<close>

definition dict_get :: "(string \<times> py_value) list \<Rightarrow> string \<Rightarrow> py_value \<Rightarrow> py_value" where
  "dict_get kvs k dflt = (case map_of kvs k of None \<Rightarrow> dflt | Some v \<Rightarrow> v)"

text \<open>
  The method call \<^verbatim>\<open>v.get(k, default)\<close> on any value: only a dict has the method,
  every other value raises \<^verbatim>\<open>AttributeError\<close>.
\<close>

definition py_get :: "py_value \<Rightarrow> string \<Rightarrow> py_value \<Rightarrow> py_exc + py_value" where
  "py_get v k dflt =
     (case v of
        PyDict kvs \<Rightarrow> Inr (dict_get kvs k dflt)
      | _ \<Rightarrow> Inl (Exc ''AttributeError''))"

text \<open>
  \<^verbatim>\<open>json.dumps\<close> with its default arguments encodes every value built from
  \<^verbatim>\<open>None\<close>, booleans, numbers, strings, lists and string-keyed dicts, and raises
  \<^verbatim>\<open>TypeError\<close> on anything else. The encoded text is represented by the document it
  encodes.
\<close>

fun json_serializable :: "py_value \<Rightarrow> bool" where
  "json_serializable (PyList xs) = list_all json_serializable xs"
| "json_serializable (PyDict kvs) = list_all (\<lambda>kv. json_serializable (snd kv)) kvs"
| "json_serializable (PyObject _) = False"
| "json_serializable _ = True"

definition json_dumps :: "py_value \<Rightarrow> py_exc + py_value" where
  "json_dumps v = (if json_serializable v then Inr v else Inl (Exc ''TypeError''))"

text \<open>
  What \<^verbatim>\<open>print\<close> writes: a line is a sequence of pieces, each a literal, the
  \<^verbatim>\<open>str()\<close> of a value, a number formatted with \<^verbatim>\<open>.2f\<close>, or the JSON text of a
  document. Writing to standard output is taken to succeed.
\<close>

datatype piece = Lit string | StrOf py_value | Fixed2 py_value | JsonOf py_value

type_synonym line = "piece list"

section \<open>The HTML extraction filter (scripts/extract_trafilatura.py)\<close>

text \<open>
  The trafilatura library is an external collaborator: the filter is modelled for every
  behaviour of its two entry points. Each takes the HTML text and either raises or returns
  a value; \<open>lib_extract\<close> is \<^verbatim>\<open>trafilatura.extract\<close> (called with \<^verbatim>\<open>with_metadata=True\<close>,
  \<^verbatim>\<open>include_comments=False\<close>, \<^verbatim>\<open>include_tables=False\<close>) and \<open>lib_bare_extraction\<close> is
  \<^verbatim>\<open>trafilatura.bare_extraction\<close>.
\<close>

record trafilatura =
  lib_extract :: "string \<Rightarrow> py_exc + py_value"
  lib_bare_extraction :: "string \<Rightarrow> py_exc + py_value"

datatype lib_call = CallExtract string | CallBareExtraction string

text \<open>
  The dict literal \<^verbatim>\<open>out\<close> of \<^verbatim>\<open>main\<close> and its printing (lines 24 to 32): the four
  \<^verbatim>\<open>meta.get\<close> calls are evaluated in the order of the literal, then
  \<^verbatim>\<open>json.dumps(out)\<close>; the first of them that raises ends the block.
\<close>

definition emit_out :: "py_value \<Rightarrow> py_value \<Rightarrow> py_exc + line list" where
  "emit_out downloaded m =
     (let meta = py_or m (PyDict []) in
      case py_get meta ''title'' PyNone of Inl e \<Rightarrow> Inl e | Inr title \<Rightarrow>
      case py_get meta ''author'' PyNone of Inl e \<Rightarrow> Inl e | Inr author \<Rightarrow>
      case py_get meta ''date'' PyNone of Inl e \<Rightarrow> Inl e | Inr date \<Rightarrow>
      case py_get meta ''lang'' PyNone of Inl e \<Rightarrow> Inl e | Inr lang \<Rightarrow>
      case json_dumps (PyDict [(''title'', title), (''text'', downloaded),
             (''author'', author), (''date'', date), (''language'', lang)]) of
        Inl e \<Rightarrow> Inl e
      | Inr doc \<Rightarrow> Inr [[JsonOf doc]])"

text \<open>
  The body of the \<^verbatim>\<open>try\<close> statement (lines 18 to 32): what it prints or the exception
  it raises, and the library calls it made.
\<close>

definition try_body :: "trafilatura \<Rightarrow> string \<Rightarrow> (py_exc + line list) \<times> lib_call list" where
  "try_body T html =
     (case lib_extract T html of
        Inl e \<Rightarrow> (Inl e, [CallExtract html])
      | Inr downloaded \<Rightarrow>
          if downloaded = PyNone then (Inr [[JsonOf (PyDict [])]], [CallExtract html])
          else
            (case lib_bare_extraction T html of
               Inl e \<Rightarrow> (Inl e, [CallExtract html, CallBareExtraction html])
             | Inr m \<Rightarrow> (emit_out downloaded m, [CallExtract html, CallBareExtraction html])))"

text \<open>
  \<^verbatim>\<open>main\<close>, given the text read from standard input: the lines printed, the library
  calls made, and the exception that left \<^verbatim>\<open>main\<close>, if one did.
\<close>

record main_run =
  printed :: "line list"
  lib_calls :: "lib_call list"
  raised :: "py_exc option"

definition main :: "trafilatura \<Rightarrow> string \<Rightarrow> main_run" where
  "main T html =
     (if html = [] then \<lparr>printed = [[JsonOf (PyDict [])]], lib_calls = [], raised = None\<rparr>
      else
        (case try_body T html of
           (Inr ls, cs) \<Rightarrow> \<lparr>printed = ls, lib_calls = cs, raised = None\<rparr>
         | (Inl e, cs) \<Rightarrow>
             if is_Exception e
             then \<lparr>printed = [[JsonOf (PyDict [])]], lib_calls = cs, raised = None\<rparr>
             else \<lparr>printed = [], lib_calls = cs, raised = Some e\<rparr>))"

text \<open>
  The script run as a program: the outcome of \<^verbatim>\<open>import trafilatura\<close> (lines 5 to 10)
  and the text on standard input give what the process writes, the library calls it makes
  and how it ends. \<^verbatim>\<open>sys.exit(0)\<close> and running off the end of the script both end the
  process with status 0; an exception nothing catches ends it with a traceback.
\<close>

datatype finish = Exit nat | Uncaught py_exc

record process =
  stdout :: "line list"
  calls :: "lib_call list"
  finish :: finish

definition script :: "py_exc + trafilatura \<Rightarrow> string \<Rightarrow> process" where
  "script imported stdin =
     (case imported of
        Inl e \<Rightarrow>
          if is_Exception e
          then \<lparr>stdout = [[JsonOf (PyDict [])]], calls = [], finish = Exit 0\<rparr>
          else \<lparr>stdout = [], calls = [], finish = Uncaught e\<rparr>
      | Inr T \<Rightarrow>
          (let r = main T stdin in
           \<lparr>stdout = printed r, calls = lib_calls r,
            finish = (case raised r of None \<Rightarrow> Exit 0 | Some e \<Rightarrow> Uncaught e)\<rparr>))"

section \<open>The demo client (examples/academic-digest.py)\<close>

definition API_BASE :: string where
  "API_BASE = ''http://localhost:5213''"

definition DOCUMENTS :: py_value where
  "DOCUMENTS =
     PyDict [(''documents'', PyList
       [PyDict
          [(''id'', PyStr ''paper-llm''),
           (''text'', PyStr ''This paper explores retrieval augmented language models for domain adaptation.''),
           (''metadata'', PyDict [(''url'', PyStr ''https://papers.example.com/rag'')])],
        PyDict
          [(''id'', PyStr ''paper-eval''),
           (''text'', PyStr ''We propose evaluation metrics for agent coordination in multi-step tasks.''),
           (''metadata'', PyDict [(''url'', PyStr ''https://papers.example.com/eval'')])]])]"

text \<open>The dict literal that \<^verbatim>\<open>main\<close> passes as the RAG payload (lines 45 to 50).\<close>

definition RAG_PAYLOAD :: py_value where
  "RAG_PAYLOAD =
     PyDict
       [(''query'', PyStr ''Summarize recent advances in retrieval augmented language models''),
        (''sessionId'', PyStr ''academic-session''),
        (''k'', PyInt 2),
        (''summaryLevels'', PyList [PyStr ''paragraph''])]"

text \<open>
  A request as \<^verbatim>\<open>urllib.request.Request\<close> builds it: a request that carries data is a
  POST. \<open>body\<close> is the document whose JSON text, encoded as UTF-8, is the data.
\<close>

record http_request =
  url :: string
  http_method :: string
  headers :: "(string \<times> string) list"
  body :: py_value

text \<open>
  The remote server and the network are external: given the requests sent before and the
  request sent now, \<^verbatim>\<open>urlopen\<close>, \<^verbatim>\<open>read\<close>, \<^verbatim>\<open>decode\<close> and \<^verbatim>\<open>json.loads\<close>
  together either raise or yield the decoded response, which can be any JSON value.
\<close>

type_synonym network = "http_request list \<Rightarrow> http_request \<Rightarrow> py_exc + py_value"

definition post_json ::
  "network \<Rightarrow> http_request list \<Rightarrow> string \<Rightarrow> py_value \<Rightarrow> (py_exc + py_value) \<times> http_request list"
where
  "post_json net sent path payload =
     (case json_dumps payload of
        Inl e \<Rightarrow> (Inl e, sent)
      | Inr doc \<Rightarrow>
          (let req = \<lparr>url = API_BASE @ path, http_method = ''POST'',
                      headers = [(''Content-Type'', ''application/json'')], body = doc\<rparr>
           in (net sent req, sent @ [req])))"

text \<open>
  \<^verbatim>\<open>v[k]\<close> with a string key: a dict looks the key up and raises \<^verbatim>\<open>KeyError\<close> when
  it is missing; a string or a list wants an integer index and every other value is not
  subscriptable, both a \<^verbatim>\<open>TypeError\<close>.
\<close>

definition py_subscript :: "py_value \<Rightarrow> string \<Rightarrow> py_exc + py_value" where
  "py_subscript v k =
     (case v of
        PyDict kvs \<Rightarrow> (case map_of kvs k of None \<Rightarrow> Inl (Exc ''KeyError'') | Some x \<Rightarrow> Inr x)
      | _ \<Rightarrow> Inl (Exc ''TypeError''))"

text \<open>
  What a \<^verbatim>\<open>for\<close> loop iterates over: the elements of a list, the keys of a dict, the
  characters of a string; any other value is not iterable.
\<close>

definition py_iter :: "py_value \<Rightarrow> py_exc + py_value list" where
  "py_iter v =
     (case v of
        PyList xs \<Rightarrow> Inr xs
      | PyDict kvs \<Rightarrow> Inr (map (\<lambda>kv. PyStr (fst kv)) kvs)
      | PyStr s \<Rightarrow> Inr (map (\<lambda>c. PyStr [c]) s)
      | _ \<Rightarrow> Inl (Exc ''TypeError''))"

text \<open>
  The format specification \<^verbatim>\<open>.2f\<close>. A float is formatted whatever its value (also
  \<^verbatim>\<open>nan\<close> and \<^verbatim>\<open>inf\<close>); an int (and a bool, which is an int) is first converted to
  float, which raises \<^verbatim>\<open>OverflowError\<close> from magnitude \<open>2^1024 - 2^970\<close> on; a string
  raises \<^verbatim>\<open>ValueError\<close>; \<^verbatim>\<open>None\<close>, lists, dicts and other objects raise
  \<^verbatim>\<open>TypeError\<close>.
\<close>

definition int_fits_float :: "int \<Rightarrow> bool" where
  "int_fits_float n = (\<bar>n\<bar> < 2 ^ 1024 - 2 ^ 970)"

fun format_2f :: "py_value \<Rightarrow> py_exc + piece" where
  "format_2f (PyFloat f) = Inr (Fixed2 (PyFloat f))"
| "format_2f (PyInt n) =
     (if int_fits_float n then Inr (Fixed2 (PyInt n)) else Inl (Exc ''OverflowError''))"
| "format_2f (PyBool b) = Inr (Fixed2 (PyBool b))"
| "format_2f (PyStr s) = Inl (Exc ''ValueError'')"
| "format_2f v = Inl (Exc ''TypeError'')"

text \<open>
  The f-string of line 58: its three fields are evaluated and formatted from left to
  right, so the first one that raises decides the exception.
\<close>

definition cite_line :: "py_value \<Rightarrow> py_exc + line" where
  "cite_line cite =
     (case py_subscript cite ''id'' of Inl e \<Rightarrow> Inl e | Inr i \<Rightarrow>
      case py_subscript cite ''score'' of Inl e \<Rightarrow> Inl e | Inr sc \<Rightarrow>
      case format_2f sc of Inl e \<Rightarrow> Inl e | Inr p \<Rightarrow>
      case py_get cite ''url'' (PyStr []) of Inl e \<Rightarrow> Inl e | Inr u \<Rightarrow>
        Inr [Lit ''- '', StrOf i, Lit '' (score='', p, Lit '') '', StrOf u])"

text \<open>
  The loop of lines 57 and 58 over the citations: the lines printed, and the exception
  that stopped the loop, if one did.
\<close>

fun print_citations :: "py_value list \<Rightarrow> line list \<times> py_exc option" where
  "print_citations [] = ([], None)"
| "print_citations (cite # rest) =
     (case cite_line cite of
        Inl e \<Rightarrow> ([], Some e)
      | Inr l \<Rightarrow> (case print_citations rest of (ls, r) \<Rightarrow> (l # ls, r)))"

text \<open>Lines 53 to 58: what \<^verbatim>\<open>main\<close> does with the decoded RAG response.\<close>

definition show_digest :: "py_value \<Rightarrow> line list \<times> py_exc option" where
  "show_digest rag =
     (let head = [[Lit ''\<newline>=== Academic Digest ==='']] in
      case py_subscript rag ''answer'' of
        Inl e \<Rightarrow> (head, Some e)
      | Inr answer \<Rightarrow>
          (let head2 = head @ [[StrOf answer], [Lit ''\<newline>Citations:'']] in
           case py_subscript rag ''citations'' of
             Inl e \<Rightarrow> (head2, Some e)
           | Inr cs \<Rightarrow>
               (case py_iter cs of
                  Inl e \<Rightarrow> (head2, Some e)
                | Inr cites \<Rightarrow>
                    (case print_citations cites of (ls, r) \<Rightarrow> (head2 @ ls, r)))))"

record demo_run =
  shown :: "line list"
  requests :: "http_request list"
  failure :: "py_exc option"

text \<open>\<^verbatim>\<open>main\<close> of the demo, against a given server.\<close>

definition digest_main :: "network \<Rightarrow> demo_run" where
  "digest_main net =
     (let out1 = [[Lit ''Indexing academic snippets...'']] in
      case post_json net [] ''/v1/semantic/index'' DOCUMENTS of
        (Inl e, sent) \<Rightarrow> \<lparr>shown = out1, requests = sent, failure = Some e\<rparr>
      | (Inr _, sent) \<Rightarrow>
          (let out2 = out1 @ [[Lit ''Running RAG query...'']] in
           case post_json net sent ''/v1/semantic/rag'' RAG_PAYLOAD of
             (Inl e, sent2) \<Rightarrow> \<lparr>shown = out2, requests = sent2, failure = Some e\<rparr>
           | (Inr rag, sent2) \<Rightarrow>
               (case show_digest rag of
                  (ls, r) \<Rightarrow> \<lparr>shown = out2 @ ls, requests = sent2, failure = r\<rparr>)))"

section \<open>The documented wire shapes\<close>

text \<open>
  Modelled from the spec: the request shapes of the HTTP and JSON contract and the
  argument check of the RAG orchestrator; the server that owns them is not among the
  sources. An object has exactly the listed keys, each once.
\<close>

definition has_keys :: "(string \<times> py_value) list \<Rightarrow> string list \<Rightarrow> bool" where
  "has_keys kvs ks = (distinct (map fst kvs) \<and> set (map fst kvs) = set ks)"

fun is_str :: "py_value \<Rightarrow> bool" where
  "is_str (PyStr _) = True"
| "is_str _ = False"



fun is_str_mapping :: "py_value \<Rightarrow> bool" where
  "is_str_mapping (PyDict kvs) = (distinct (map fst kvs) \<and> list_all (\<lambda>kv. is_str (snd kv)) kvs)"
| "is_str_mapping _ = False"

text \<open>
  Modelled from the spec: \<^verbatim>\<open>{"id": string, "text": string, "metadata": {string: string}}\<close>.
\<close>

fun document_shape :: "py_value \<Rightarrow> bool" where
  "document_shape (PyDict kvs) =
     (has_keys kvs [''id'', ''text'', ''metadata'']
      \<and> is_str (dict_get kvs ''id'' PyNone)
      \<and> is_str (dict_get kvs ''text'' PyNone)
      \<and> is_str_mapping (dict_get kvs ''metadata'' PyNone))"
| "document_shape _ = False"

text \<open>
  Modelled from the spec: the request of \<^verbatim>\<open>POST /v1/semantic/index\<close>,
  \<^verbatim>\<open>{"documents": [document, ...]}\<close>.
\<close>

fun documents_shape :: "py_value \<Rightarrow> bool" where
  "documents_shape (PyList ds) = list_all document_shape ds"
| "documents_shape _ = False"

fun index_request_shape :: "py_value \<Rightarrow> bool" where
  "index_request_shape (PyDict kvs) =
     (has_keys kvs [''documents''] \<and> documents_shape (dict_get kvs ''documents'' PyNone))"
| "index_request_shape _ = False"



text \<open>
  Whether every citation of a decoded response is an object with the fields \<^verbatim>\<open>id\<close>
  and \<^verbatim>\<open>score\<close>, and whether a score is a number that \<^verbatim>\<open>.2f\<close> can format.
\<close>

fun has_id_and_score :: "py_value \<Rightarrow> bool" where
  "has_id_and_score (PyDict kvs) = (map_of kvs ''id'' \<noteq> None \<and> map_of kvs ''score'' \<noteq> None)"
| "has_id_and_score _ = False"

fun formattable_number :: "py_value \<Rightarrow> bool" where
  "formattable_number (PyFloat _) = True"
| "formattable_number (PyInt n) = int_fits_float n"
| "formattable_number (PyBool _) = True"
| "formattable_number _ = False"

fun has_id_and_numeric_score :: "py_value \<Rightarrow> bool" where
  "has_id_and_numeric_score (PyDict kvs) =
     (map_of kvs ''id'' \<noteq> None \<and> formattable_number (dict_get kvs ''score'' PyNone))"
| "has_id_and_numeric_score _ = False"

section \<open>The semantic index service the demo talks to\<close>

text \<open>
  Modelled from the spec: the service behind the two endpoints (Document Store, Vector
  Index, Retriever and the \<^verbatim>\<open>index\<close> operation of the orchestrator) is not among the
  sources, so it is written here from the words of the component design. The Embedder
  and the similarity of two embeddings are external capabilities, passed as \<open>embedder\<close>
  and \<open>sim\<close>.
\<close>

record document =
  doc_id :: string
  doc_text :: string
  doc_metadata :: "(string \<times> string) list"

text \<open>A validation error names the field that broke its constraint.\<close>

datatype svc_error =
    ValidationError string
  | NotFoundError
  | EmptyIndexError
  | NoResultsError
  | InvalidArgumentError

type_synonym doc_store = "string \<rightharpoonup> document"

text \<open>
  The Vector Index keeps its entries in insertion order, which breaks ties between equal
  scores.
\<close>

type_synonym 'e vector_index = "(string \<times> 'e) list"

record 'e service =
  store :: doc_store
  vindex :: "'e vector_index"

text \<open>
  Modelled from the spec: \<^verbatim>\<open>put\<close> validates that \<^verbatim>\<open>id\<close> and \<^verbatim>\<open>text\<close> are
  non-empty, stores or overwrites, and triggers the computation of the embedding, which it
  hands back with the store.
\<close>

definition validate :: "document \<Rightarrow> svc_error option" where
  "validate d =
     (if doc_id d = [] then Some (ValidationError ''id'')
      else if doc_text d = [] then Some (ValidationError ''text'')
      else None)"

definition put ::
  "(string \<Rightarrow> 'e) \<Rightarrow> document \<Rightarrow> doc_store \<Rightarrow> svc_error + doc_store \<times> (string \<times> 'e)"
where
  "put embedder d st =
     (case validate d of
        Some e \<Rightarrow> Inl e
      | None \<Rightarrow> Inr (st(doc_id d \<mapsto> d), (doc_id d, embedder (doc_text d))))"

text \<open>Modelled from the spec: \<^verbatim>\<open>get\<close> returns the document or fails with \<^verbatim>\<open>NotFoundError\<close>.\<close>

definition get :: "string \<Rightarrow> doc_store \<Rightarrow> svc_error + document" where
  "get i st = (case st i of None \<Rightarrow> Inl NotFoundError | Some d \<Rightarrow> Inr d)"

text \<open>
  Modelled from the spec: \<^verbatim>\<open>putAll\<close> applies \<^verbatim>\<open>put\<close> to each element in order, on a
  working copy of the store; the first validation error rejects the batch, and the copy
  becomes visible only when every \<^verbatim>\<open>put\<close> has succeeded.
\<close>

fun putAll ::
  "(string \<Rightarrow> 'e) \<Rightarrow> document list \<Rightarrow> doc_store \<Rightarrow> svc_error + doc_store \<times> (string \<times> 'e) list"
where
  "putAll embedder [] st = Inr (st, [])"
| "putAll embedder (d # ds) st =
     (case put embedder d st of
        Inl e \<Rightarrow> Inl e
      | Inr (st', entry) \<Rightarrow>
          (case putAll embedder ds st' of
             Inl e \<Rightarrow> Inl e
           | Inr (st'', entries) \<Rightarrow> Inr (st'', entry # entries)))"

text \<open>
  Modelled from the spec: \<^verbatim>\<open>insert(id, embedding)\<close> replaces any existing entry for
  \<^verbatim>\<open>id\<close>; a new id is entered last.
\<close>

definition insert_entry :: "string \<Rightarrow> 'e \<Rightarrow> 'e vector_index \<Rightarrow> 'e vector_index" where
  "insert_entry i e idx =
     (if i \<in> fst ` set idx
      then map (\<lambda>p. if fst p = i then (i, e) else p) idx
      else idx @ [(i, e)])"

text \<open>
  Modelled from the spec: \<^verbatim>\<open>index(documents)\<close> delegates to \<^verbatim>\<open>putAll\<close>, then inserts
  each newly embedded document into the Vector Index; it fails as a whole if a document
  fails validation. The result is the error, if any, and the state readers see afterwards.
\<close>

definition index :: "(string \<Rightarrow> 'e) \<Rightarrow> document list \<Rightarrow> 'e service \<Rightarrow> svc_error option \<times> 'e service" where
  "index embedder ds s =
     (case putAll embedder ds (store s) of
        Inl e \<Rightarrow> (Some e, s)
      | Inr (st', entries) \<Rightarrow>
          (None, \<lparr>store = st', vindex = fold (\<lambda>p. insert_entry (fst p) (snd p)) entries (vindex s)\<rparr>))"

text \<open>
  Modelled from the spec: \<^verbatim>\<open>search(queryEmbedding, k)\<close> returns up to \<open>k\<close> pairs of id
  and score in descending order of score, ties in insertion order; on an index with no
  entries it fails with \<^verbatim>\<open>EmptyIndexError\<close>. \<open>sort_key\<close> is a stable insertion sort.
\<close>

definition search ::
  "('e \<Rightarrow> 'e \<Rightarrow> real) \<Rightarrow> 'e \<Rightarrow> int \<Rightarrow> 'e vector_index \<Rightarrow> svc_error + (string \<times> real) list"
where
  "search sim q k idx =
     (if idx = [] then Inl EmptyIndexError
      else Inr (take (nat k) (sort_key (\<lambda>p. - snd p) (map (\<lambda>p. (fst p, sim q (snd p))) idx))))"

text \<open>
  Modelled from the spec: \<^verbatim>\<open>retrieve(query, k)\<close> embeds the query, searches the Vector
  Index and resolves each id through the Document Store; an id that no longer resolves is
  dropped silently.
\<close>

definition resolve :: "doc_store \<Rightarrow> string \<times> real \<Rightarrow> (document \<times> real) option" where
  "resolve st hit = (case st (fst hit) of None \<Rightarrow> None | Some d \<Rightarrow> Some (d, snd hit))"

definition retrieve ::
  "(string \<Rightarrow> 'e) \<Rightarrow> ('e \<Rightarrow> 'e \<Rightarrow> real) \<Rightarrow> 'e service \<Rightarrow> string \<Rightarrow> int \<Rightarrow> svc_error + (document \<times> real) list"
where
  "retrieve embedder sim s query k =
     (case search sim (embedder query) k (vindex s) of
        Inl e \<Rightarrow> Inl e
      | Inr hits \<Rightarrow> Inr (List.map_filter (resolve (store s)) hits))"

text \<open>The first document of a batch that fails validation, with its error.\<close>

fun first_rejection :: "document list \<Rightarrow> svc_error option" where
  "first_rejection [] = None"
| "first_rejection (d # ds) = (case validate d of Some e \<Rightarrow> Some e | None \<Rightarrow> first_rejection ds)"

text \<open>What a store holds after the documents of a batch were put in order: the last write wins.\<close>

definition stored_after :: "doc_store \<Rightarrow> document list \<Rightarrow> doc_store" where
  "stored_after st ds = st ++ map_of (rev (map (\<lambda>d. (doc_id d, d)) ds))"

text \<open>
  The service as it starts, and the state readers see after a history of \<^verbatim>\<open>index\<close>
  calls (a rejected call leaves the state as it was).
\<close>

definition empty_service :: "'e service" where
  "empty_service = \<lparr>store = Map.empty, vindex = []\<rparr>"

definition after_calls :: "(string \<Rightarrow> 'e) \<Rightarrow> document list list \<Rightarrow> 'e service" where
  "after_calls embedder batches = fold (\<lambda>ds s. snd (index embedder ds s)) batches empty_service"

section \<open>Example inputs\<close>

text \<open>
  A library whose \<^verbatim>\<open>extract\<close> raises \<^verbatim>\<open>ValueError\<close>, and one that extracts a text
  with a title and a language but no author and no date.
\<close>

definition failing_library :: trafilatura where
  "failing_library =
     \<lparr>lib_extract = (\<lambda>html. Inl (Exc ''ValueError'')),
      lib_bare_extraction = (\<lambda>html. Inr PyNone)\<rparr>"

definition working_library :: trafilatura where
  "working_library =
     \<lparr>lib_extract = (\<lambda>html. Inr (PyStr ''Hello'')),
      lib_bare_extraction = (\<lambda>html. Inr (PyDict [(''title'', PyStr ''Greeting''), (''lang'', PyStr ''en'')]))\<rparr>"

text \<open>A library whose \<^verbatim>\<open>bare_extraction\<close> returns an object instead of a dict.\<close>

definition object_library :: trafilatura where
  "object_library =
     \<lparr>lib_extract = (\<lambda>html. Inr (PyStr ''Hello'')),
      lib_bare_extraction = (\<lambda>html. Inr (PyObject ''Document''))\<rparr>"

text \<open>A library whose \<^verbatim>\<open>extract\<close> returns a text and whose \<^verbatim>\<open>bare_extraction\<close> raises.\<close>

definition metadata_raising_library :: trafilatura where
  "metadata_raising_library =
     \<lparr>lib_extract = (\<lambda>html. Inr (PyStr ''Hello'')),
      lib_bare_extraction = (\<lambda>html. Inl (Exc ''ValueError''))\<rparr>"

text \<open>Citations of a response: one without \<^verbatim>\<open>url\<close>, one with an integer score and a url.\<close>

definition sample_citations :: "py_value list" where
  "sample_citations =
     [PyDict [(''id'', PyStr ''paper-llm''), (''score'', PyFloat (Finite (91 / 100)))],
      PyDict [(''id'', PyStr ''paper-eval''), (''score'', PyInt 0),
              (''url'', PyStr ''https://papers.example.com/eval'')]]"

text \<open>Two documents, an embedder that measures the length of a text, and a similarity.\<close>

definition doc_llm :: document where
  "doc_llm = \<lparr>doc_id = ''paper-llm'', doc_text = ''retrieval augmented language models'',
               doc_metadata = [(''url'', ''https://papers.example.com/rag'')]\<rparr>"

definition doc_eval :: document where
  "doc_eval = \<lparr>doc_id = ''paper-eval'', doc_text = ''evaluation metrics'',
                doc_metadata = [(''url'', ''https://papers.example.com/eval'')]\<rparr>"

definition length_embedder :: "string \<Rightarrow> nat" where
  "length_embedder t = length t"

definition closeness :: "nat \<Rightarrow> nat \<Rightarrow> real" where
  "closeness a b = 1 / (1 + \<bar>real a - real b\<bar>)"

text \<open>A service that holds the two documents, in the order they were indexed.\<close>

definition sample_service :: "nat service" where
  "sample_service =
     \<lparr>store = [''paper-llm'' \<mapsto> doc_llm, ''paper-eval'' \<mapsto> doc_eval],
      vindex = [(''paper-llm'', 35), (''paper-eval'', 18)]\<rparr>"

section \<open>Properties of the extraction filter\<close>

text \<open>
  Claim C1. For every input HTML string, if the extraction step fails, that is
  \<^verbatim>\<open>trafilatura.extract\<close> raises an exception (an instance of \<^verbatim>\<open>Exception\<close>, whatever
  its class) or returns \<^verbatim>\<open>None\<close>, the filter writes exactly one line, the empty JSON
  object, and ends normally with status 0. On the empty input the library is not called
  at all and the output is the same.
\<close>

theorem extract_failure_emits_empty_object:
  assumes "lib_extract T html = Inl (Exc name) \<or> lib_extract T html = Inr PyNone"
  shows "script (Inr T) html =
           \<lparr>stdout = [[JsonOf (PyDict [])]],
            calls = (if html = [] then [] else [CallExtract html]),
            finish = Exit 0\<rparr>"
proof (cases "html = []")
  case True
  then show ?thesis by (simp add: script_def main_def)
next
  case False
  from assms show ?thesis
  proof
    assume "lib_extract T html = Inl (Exc name)"
    with False show ?thesis by (simp add: script_def main_def try_body_def)
  next
    assume "lib_extract T html = Inr PyNone"
    with False show ?thesis by (simp add: script_def main_def try_body_def)
  qed
qed

theorem extract_failure_emits_empty_object_witness:
  "(lib_extract failing_library ''<p>Hi</p>'' = Inl (Exc ''ValueError'')
      \<or> lib_extract failing_library ''<p>Hi</p>'' = Inr PyNone)
   \<and> script (Inr failing_library) ''<p>Hi</p>'' =
       \<lparr>stdout = [[JsonOf (PyDict [])]], calls = [CallExtract ''<p>Hi</p>''], finish = Exit 0\<rparr>"
proof -
  have h: "lib_extract failing_library ''<p>Hi</p>'' = Inl (Exc ''ValueError'')
      \<or> lib_extract failing_library ''<p>Hi</p>'' = Inr PyNone"
    by (simp add: failing_library_def)
  show ?thesis
    using h extract_failure_emits_empty_object [OF h] by simp
qed

text \<open>
  Claim C2, as amended. For every non-empty input on which both extraction steps succeed
  (\<^verbatim>\<open>extract\<close> returns a text, \<^verbatim>\<open>bare_extraction\<close> returns a dict or a falsy value
  that \<^verbatim>\<open>or {}\<close> replaces by the empty dict, and the values are JSON-serialisable), the
  filter writes exactly one JSON object. Its keys are \<^verbatim>\<open>title\<close>, \<^verbatim>\<open>text\<close>,
  \<^verbatim>\<open>author\<close>, \<^verbatim>\<open>date\<close> and \<^verbatim>\<open>language\<close>, in this order and no others;
  \<^verbatim>\<open>text\<close> holds the extracted text; the other four hold what the metadata has under
  \<^verbatim>\<open>title\<close>, \<^verbatim>\<open>author\<close>, \<^verbatim>\<open>date\<close> and \<^verbatim>\<open>lang\<close>, and \<^verbatim>\<open>None\<close> (JSON
  \<^verbatim>\<open>null\<close>) where the metadata has no such key.
\<close>

theorem extract_success_output_shape:
  assumes "html \<noteq> []"
    and "lib_extract T html = Inr text" and "text \<noteq> PyNone"
    and "lib_bare_extraction T html = Inr m" and "py_or m (PyDict []) = PyDict meta"
    and "json_serializable text"
    and "list_all (\<lambda>k. json_serializable (dict_get meta k PyNone))
           [''title'', ''author'', ''date'', ''lang'']"
  shows "script (Inr T) html =
           \<lparr>stdout = [[JsonOf (PyDict
               [(''title'', dict_get meta ''title'' PyNone),
                (''text'', text),
                (''author'', dict_get meta ''author'' PyNone),
                (''date'', dict_get meta ''date'' PyNone),
                (''language'', dict_get meta ''lang'' PyNone)])]],
            calls = [CallExtract html, CallBareExtraction html],
            finish = Exit 0\<rparr>"
proof -
  have "emit_out text m =
          Inr [[JsonOf (PyDict
               [(''title'', dict_get meta ''title'' PyNone),
                (''text'', text),
                (''author'', dict_get meta ''author'' PyNone),
                (''date'', dict_get meta ''date'' PyNone),
                (''language'', dict_get meta ''lang'' PyNone)])]]"
    using assms(5-7) by (simp add: emit_out_def py_get_def json_dumps_def)
  then have "try_body T html =
          (Inr [[JsonOf (PyDict
               [(''title'', dict_get meta ''title'' PyNone),
                (''text'', text),
                (''author'', dict_get meta ''author'' PyNone),
                (''date'', dict_get meta ''date'' PyNone),
                (''language'', dict_get meta ''lang'' PyNone)])]],
           [CallExtract html, CallBareExtraction html])"
    using assms(2-4) by (simp add: try_body_def)
  with assms(1) show ?thesis by (simp add: script_def main_def)
qed

theorem extract_success_output_shape_witness:
  "''<p>Hello</p>'' \<noteq> []
   \<and> lib_extract working_library ''<p>Hello</p>'' = Inr (PyStr ''Hello'')
   \<and> PyStr ''Hello'' \<noteq> PyNone
   \<and> lib_bare_extraction working_library ''<p>Hello</p>''
       = Inr (PyDict [(''title'', PyStr ''Greeting''), (''lang'', PyStr ''en'')])
   \<and> py_or (PyDict [(''title'', PyStr ''Greeting''), (''lang'', PyStr ''en'')]) (PyDict [])
       = PyDict [(''title'', PyStr ''Greeting''), (''lang'', PyStr ''en'')]
   \<and> script (Inr working_library) ''<p>Hello</p>'' =
       \<lparr>stdout = [[JsonOf (PyDict
           [(''title'', PyStr ''Greeting''), (''text'', PyStr ''Hello''), (''author'', PyNone),
            (''date'', PyNone), (''language'', PyStr ''en'')])]],
        calls = [CallExtract ''<p>Hello</p>'', CallBareExtraction ''<p>Hello</p>''],
        finish = Exit 0\<rparr>"
proof -
  have h1: "''<p>Hello</p>'' \<noteq> []" by simp
  have h2: "lib_extract working_library ''<p>Hello</p>'' = Inr (PyStr ''Hello'')"
    by (simp add: working_library_def)
  have h3: "PyStr ''Hello'' \<noteq> PyNone" by simp
  have h4: "lib_bare_extraction working_library ''<p>Hello</p>''
       = Inr (PyDict [(''title'', PyStr ''Greeting''), (''lang'', PyStr ''en'')])"
    by (simp add: working_library_def)
  have h5: "py_or (PyDict [(''title'', PyStr ''Greeting''), (''lang'', PyStr ''en'')]) (PyDict [])
       = PyDict [(''title'', PyStr ''Greeting''), (''lang'', PyStr ''en'')]"
    by (simp add: py_or_def)
  have h6: "json_serializable (PyStr ''Hello'')" by simp
  have h7: "list_all (\<lambda>k. json_serializable
              (dict_get [(''title'', PyStr ''Greeting''), (''lang'', PyStr ''en'')] k PyNone))
           [''title'', ''author'', ''date'', ''lang'']"
    by (simp add: dict_get_def)
  show ?thesis
    using h1 h2 h3 h4 h5 extract_success_output_shape [OF h1 h2 h3 h4 h5 h6 h7]
    by (simp add: dict_get_def)
qed

text \<open>
  Claim C2 as stated asks only that extraction succeeds, that is, that \<^verbatim>\<open>extract\<close>
  returns a text. That is not enough. In both runs below \<^verbatim>\<open>extract\<close> returns the text
  \<^verbatim>\<open>Hello\<close> on a non-empty input, and the filter still writes the empty object, which
  has no key \<^verbatim>\<open>text\<close>: in the first \<^verbatim>\<open>bare_extraction\<close> returns an object that is
  not a dict, so \<^verbatim>\<open>meta.get\<close> raises \<^verbatim>\<open>AttributeError\<close>; in the second
  \<^verbatim>\<open>bare_extraction\<close> itself raises. Either exception is caught by the handler of
  lines 33 and 34.
\<close>

theorem extract_success_without_text_key:
  "lib_extract object_library ''<p>Hello</p>'' = Inr (PyStr ''Hello'')
   \<and> script (Inr object_library) ''<p>Hello</p>'' =
       \<lparr>stdout = [[JsonOf (PyDict [])]],
        calls = [CallExtract ''<p>Hello</p>'', CallBareExtraction ''<p>Hello</p>''],
        finish = Exit 0\<rparr>
   \<and> lib_extract metadata_raising_library ''<p>Hello</p>'' = Inr (PyStr ''Hello'')
   \<and> script (Inr metadata_raising_library) ''<p>Hello</p>'' =
       \<lparr>stdout = [[JsonOf (PyDict [])]],
        calls = [CallExtract ''<p>Hello</p>'', CallBareExtraction ''<p>Hello</p>''],
        finish = Exit 0\<rparr>
   \<and> py_subscript (PyDict []) ''text'' = Inl (Exc ''KeyError'')"
  by (simp add: script_def main_def try_body_def emit_out_def py_or_def py_get_def
      py_subscript_def object_library_def metadata_raising_library_def)

text \<open>
  Claim C9. If importing trafilatura fails (the import raises \<^verbatim>\<open>ImportError\<close> or any
  other instance of \<^verbatim>\<open>Exception\<close>), the filter writes exactly the empty JSON object and
  ends with exit status 0, whatever is on standard input; nothing of the library is
  called.
\<close>

theorem import_failure_emits_empty_object:
  "script (Inl (Exc name)) html =
     \<lparr>stdout = [[JsonOf (PyDict [])]], calls = [], finish = Exit 0\<rparr>"
  by (simp add: script_def)

text \<open>
  Claim C10. On the empty input the filter writes exactly the empty JSON object and makes
  no call to the extraction library, whatever the library would do.
\<close>

theorem empty_input_emits_empty_object:
  "script (Inr T) [] = \<lparr>stdout = [[JsonOf (PyDict [])]], calls = [], finish = Exit 0\<rparr>"
  by (simp add: script_def main_def)

text \<open>
  When \<^verbatim>\<open>extract\<close> has returned a text but the metadata step fails, because
  \<^verbatim>\<open>bare_extraction\<close> raises an instance of \<^verbatim>\<open>Exception\<close> or returns an object that
  has no \<^verbatim>\<open>get\<close> method, the filter also falls back to the empty JSON object.
\<close>

theorem metadata_failure_emits_empty_object:
  assumes "html \<noteq> []"
    and "lib_extract T html = Inr text" and "text \<noteq> PyNone"
    and "lib_bare_extraction T html = Inl (Exc name)
         \<or> lib_bare_extraction T html = Inr (PyObject cls)"
  shows "script (Inr T) html =
           \<lparr>stdout = [[JsonOf (PyDict [])]],
            calls = [CallExtract html, CallBareExtraction html],
            finish = Exit 0\<rparr>"
  using assms(4)
proof
  assume "lib_bare_extraction T html = Inl (Exc name)"
  with assms(1-3) show ?thesis by (simp add: script_def main_def try_body_def)
next
  assume "lib_bare_extraction T html = Inr (PyObject cls)"
  moreover have "emit_out text (PyObject cls) = Inl (Exc ''AttributeError'')"
    by (simp add: emit_out_def py_or_def py_get_def)
  ultimately show ?thesis
    using assms(1-3) by (simp add: script_def main_def try_body_def)
qed

theorem metadata_failure_emits_empty_object_witness:
  "''<p>Hello</p>'' \<noteq> []
   \<and> lib_extract object_library ''<p>Hello</p>'' = Inr (PyStr ''Hello'')
   \<and> PyStr ''Hello'' \<noteq> PyNone
   \<and> (lib_bare_extraction object_library ''<p>Hello</p>'' = Inl (Exc ''ValueError'')
        \<or> lib_bare_extraction object_library ''<p>Hello</p>'' = Inr (PyObject ''Document''))
   \<and> script (Inr object_library) ''<p>Hello</p>'' =
       \<lparr>stdout = [[JsonOf (PyDict [])]],
        calls = [CallExtract ''<p>Hello</p>'', CallBareExtraction ''<p>Hello</p>''],
        finish = Exit 0\<rparr>"
proof -
  have h1: "''<p>Hello</p>'' \<noteq> []" by simp
  have h2: "lib_extract object_library ''<p>Hello</p>'' = Inr (PyStr ''Hello'')"
    by (simp add: object_library_def)
  have h3: "PyStr ''Hello'' \<noteq> PyNone" by simp
  have h4: "lib_bare_extraction object_library ''<p>Hello</p>'' = Inl (Exc ''ValueError'')
        \<or> lib_bare_extraction object_library ''<p>Hello</p>'' = Inr (PyObject ''Document'')"
    by (simp add: object_library_def)
  show ?thesis
    using h1 h2 h3 h4 metadata_failure_emits_empty_object [OF h1 h2 h3 h4] by simp
qed

lemma emit_out_one_line: "emit_out downloaded m = Inr ls \<Longrightarrow> length ls = 1"
  by (auto simp add: emit_out_def Let_def split: sum.splits)

lemma try_body_one_line: "try_body T html = (Inr ls, cs) \<Longrightarrow> length ls = 1"
  by (auto simp add: try_body_def dest: emit_out_one_line split: sum.splits if_splits)

text \<open>
  Whatever the import and the library do and whatever the input is, the filter ends in
  one of two ways: with status 0 after writing exactly one line, or with an uncaught
  exception that is not an instance of \<^verbatim>\<open>Exception\<close>, having written nothing.
\<close>

theorem script_one_line_or_uncaught:
  "(finish (script imported html) = Exit 0 \<and> length (stdout (script imported html)) = 1)
   \<or> (\<exists>cls. finish (script imported html) = Uncaught (BaseExc cls)
              \<and> stdout (script imported html) = [])"
proof (cases imported)
  case (Inl e)
  then show ?thesis by (cases e) (simp_all add: script_def)
next
  case (Inr T)
  show ?thesis
  proof (cases "html = []")
    case True
    with Inr show ?thesis by (simp add: script_def main_def)
  next
    case False
    obtain r cs where tb: "try_body T html = (r, cs)" by (cases "try_body T html")
    show ?thesis
    proof (cases r)
      case (Inl e)
      with tb False \<open>imported = Inr T\<close> show ?thesis
        by (cases e) (simp_all add: script_def main_def)
    next
      case r: (Inr ls)
      with tb have "length ls = 1" by (simp add: try_body_one_line)
      with tb r False \<open>imported = Inr T\<close> show ?thesis
        by (simp add: script_def main_def)
    qed
  qed
qed

section \<open>Properties of the demo client\<close>

lemma json_serializable_DOCUMENTS: "json_serializable DOCUMENTS"
  by (simp add: DOCUMENTS_def)

lemma json_serializable_RAG_PAYLOAD: "json_serializable RAG_PAYLOAD"
  by (simp add: RAG_PAYLOAD_def)

lemma post_json_serializable:
  "json_serializable payload \<Longrightarrow>
   post_json net sent path payload =
     (net sent \<lparr>url = API_BASE @ path, http_method = ''POST'',
                 headers = [(''Content-Type'', ''application/json'')], body = payload\<rparr>,
      sent @ [\<lparr>url = API_BASE @ path, http_method = ''POST'',
                headers = [(''Content-Type'', ''application/json'')], body = payload\<rparr>])"
  by (simp add: post_json_def json_dumps_def Let_def)

text \<open>
  The demo sends the index request first and, only when that call returns, the RAG
  request; it sends nothing else.
\<close>

lemma requests_digest_main:
  "requests (digest_main net) =
     [\<lparr>url = ''http://localhost:5213/v1/semantic/index'', http_method = ''POST'',
       headers = [(''Content-Type'', ''application/json'')], body = DOCUMENTS\<rparr>]
   \<or> requests (digest_main net) =
     [\<lparr>url = ''http://localhost:5213/v1/semantic/index'', http_method = ''POST'',
       headers = [(''Content-Type'', ''application/json'')], body = DOCUMENTS\<rparr>,
      \<lparr>url = ''http://localhost:5213/v1/semantic/rag'', http_method = ''POST'',
       headers = [(''Content-Type'', ''application/json'')], body = RAG_PAYLOAD\<rparr>]"
  by (simp add: digest_main_def post_json_serializable json_serializable_DOCUMENTS
      json_serializable_RAG_PAYLOAD API_BASE_def Let_def split: sum.splits prod.splits)

lemma rag_request_is_sent:
  assumes "net [] \<lparr>url = ''http://localhost:5213/v1/semantic/index'', http_method = ''POST'',
       headers = [(''Content-Type'', ''application/json'')], body = DOCUMENTS\<rparr> = Inr ack"
  shows "requests (digest_main net) =
     [\<lparr>url = ''http://localhost:5213/v1/semantic/index'', http_method = ''POST'',
       headers = [(''Content-Type'', ''application/json'')], body = DOCUMENTS\<rparr>,
      \<lparr>url = ''http://localhost:5213/v1/semantic/rag'', http_method = ''POST'',
       headers = [(''Content-Type'', ''application/json'')], body = RAG_PAYLOAD\<rparr>]"
  using assms
  by (simp add: digest_main_def post_json_serializable json_serializable_DOCUMENTS
      json_serializable_RAG_PAYLOAD API_BASE_def Let_def split: sum.splits prod.splits)

text \<open>
  Claim C3. The first request the demo sends is a POST to \<^verbatim>\<open>/v1/semantic/index\<close> whose
  body is \<^verbatim>\<open>DOCUMENTS\<close>. The body has the documented shape, and under \<^verbatim>\<open>documents\<close> it
  holds exactly two documents: \<^verbatim>\<open>paper-llm\<close>, whose text contains "retrieval augmented
  language models", and \<^verbatim>\<open>paper-eval\<close>, whose text contains "evaluation metrics for agent
  coordination", each with a metadata mapping from strings to strings whose only key is
  \<^verbatim>\<open>url\<close>.
\<close>

theorem index_request_body_conforms:
  "take 1 (requests (digest_main net)) =
     [\<lparr>url = ''http://localhost:5213/v1/semantic/index'', http_method = ''POST'',
       headers = [(''Content-Type'', ''application/json'')], body = DOCUMENTS\<rparr>]
   \<and> index_request_shape DOCUMENTS
   \<and> py_subscript DOCUMENTS ''documents'' = Inr (PyList
        [PyDict
           [(''id'', PyStr ''paper-llm''),
            (''text'', PyStr (''This paper explores '' @ ''retrieval augmented language models''
                              @ '' for domain adaptation.'')),
            (''metadata'', PyDict [(''url'', PyStr ''https://papers.example.com/rag'')])],
         PyDict
           [(''id'', PyStr ''paper-eval''),
            (''text'', PyStr (''We propose '' @ ''evaluation metrics for agent coordination''
                              @ '' in multi-step tasks.'')),
            (''metadata'', PyDict [(''url'', PyStr ''https://papers.example.com/eval'')])]])
   \<and> is_str_mapping (PyDict [(''url'', PyStr ''https://papers.example.com/rag'')])
   \<and> is_str_mapping (PyDict [(''url'', PyStr ''https://papers.example.com/eval'')])"
proof -
  have sent: "take 1 (requests (digest_main net)) =
     [\<lparr>url = ''http://localhost:5213/v1/semantic/index'', http_method = ''POST'',
       headers = [(''Content-Type'', ''application/json'')], body = DOCUMENTS\<rparr>]"
    using requests_digest_main [of net] by auto
  have shape: "index_request_shape DOCUMENTS"
    by (simp add: DOCUMENTS_def has_keys_def dict_get_def)
  have docs: "py_subscript DOCUMENTS ''documents'' = Inr (PyList
        [PyDict
           [(''id'', PyStr ''paper-llm''),
            (''text'', PyStr (''This paper explores '' @ ''retrieval augmented language models''
                              @ '' for domain adaptation.'')),
            (''metadata'', PyDict [(''url'', PyStr ''https://papers.example.com/rag'')])],
         PyDict
           [(''id'', PyStr ''paper-eval''),
            (''text'', PyStr (''We propose '' @ ''evaluation metrics for agent coordination''
                              @ '' in multi-step tasks.'')),
            (''metadata'', PyDict [(''url'', PyStr ''https://papers.example.com/eval'')])]])"
    by (simp add: DOCUMENTS_def py_subscript_def)
  from sent shape docs show ?thesis by simp
qed


text \<open>
  A citation that is an object with \<^verbatim>\<open>id\<close> and a score \<^verbatim>\<open>.2f\<close> can format prints as
  one line; its last field is the url, or the empty string when the citation has none.
\<close>

lemma cite_line_numeric_score:
  assumes "has_id_and_numeric_score (PyDict kvs)"
  shows "cite_line (PyDict kvs) =
     Inr [Lit ''- '', StrOf (dict_get kvs ''id'' PyNone), Lit '' (score='',
          Fixed2 (dict_get kvs ''score'' PyNone), Lit '') '',
          StrOf (dict_get kvs ''url'' (PyStr []))]"
proof -
  from assms obtain i where i: "map_of kvs ''id'' = Some i" by auto
  from assms have f: "formattable_number (dict_get kvs ''score'' PyNone)" by simp
  then obtain sc where sc: "map_of kvs ''score'' = Some sc"
    by (cases "map_of kvs ''score''") (simp_all add: dict_get_def)
  with f have "formattable_number sc" by (simp add: dict_get_def)
  then have "format_2f sc = Inr (Fixed2 sc)" by (cases sc) simp_all
  with i sc show ?thesis
    by (simp add: cite_line_def py_subscript_def py_get_def dict_get_def)
qed

text \<open>
  Claim C5, as amended. For every list of citations that are objects with an \<^verbatim>\<open>id\<close>
  and a \<^verbatim>\<open>score\<close> that is a number \<^verbatim>\<open>.2f\<close> can format (a float, a bool, or an int
  below \<open>2^1024 - 2^970\<close> in magnitude), the citation loop raises nothing and prints one
  line per citation, whether or not a citation has a \<^verbatim>\<open>url\<close>: a missing \<^verbatim>\<open>url\<close>
  prints as the empty string.
\<close>

theorem citation_loop_total_numeric_score:
  assumes "list_all has_id_and_numeric_score cites"
  shows "print_citations cites =
     (map (\<lambda>cite. case cite of
             PyDict kvs \<Rightarrow>
               [Lit ''- '', StrOf (dict_get kvs ''id'' PyNone), Lit '' (score='',
                Fixed2 (dict_get kvs ''score'' PyNone), Lit '') '',
                StrOf (dict_get kvs ''url'' (PyStr []))]
           | _ \<Rightarrow> []) cites,
      None)"
  using assms
proof (induction cites)
  case Nil
  show ?case by simp
next
  case (Cons cite cites)
  from Cons.prems obtain kvs where kvs: "cite = PyDict kvs"
    by (cases cite) simp_all
  with Cons.prems have "has_id_and_numeric_score (PyDict kvs)" by simp
  then have "cite_line (PyDict kvs) =
     Inr [Lit ''- '', StrOf (dict_get kvs ''id'' PyNone), Lit '' (score='',
          Fixed2 (dict_get kvs ''score'' PyNone), Lit '') '',
          StrOf (dict_get kvs ''url'' (PyStr []))]"
    by (rule cite_line_numeric_score)
  moreover from Cons have "print_citations cites =
     (map (\<lambda>cite. case cite of
             PyDict kvs \<Rightarrow>
               [Lit ''- '', StrOf (dict_get kvs ''id'' PyNone), Lit '' (score='',
                Fixed2 (dict_get kvs ''score'' PyNone), Lit '') '',
                StrOf (dict_get kvs ''url'' (PyStr []))]
           | _ \<Rightarrow> []) cites,
      None)" by simp
  ultimately show ?case using kvs by simp
qed

theorem citation_loop_total_numeric_score_witness:
  "list_all has_id_and_numeric_score sample_citations
   \<and> print_citations sample_citations =
       ([[Lit ''- '', StrOf (PyStr ''paper-llm''), Lit '' (score='',
          Fixed2 (PyFloat (Finite (91 / 100))), Lit '') '', StrOf (PyStr [])],
         [Lit ''- '', StrOf (PyStr ''paper-eval''), Lit '' (score='',
          Fixed2 (PyInt 0), Lit '') '', StrOf (PyStr ''https://papers.example.com/eval'')]],
        None)"
proof -
  have h: "list_all has_id_and_numeric_score sample_citations"
    by (simp add: sample_citations_def dict_get_def int_fits_float_def)
  show ?thesis
    using h citation_loop_total_numeric_score [OF h]
    by (simp add: sample_citations_def dict_get_def)
qed

text \<open>
  Claim C5 as stated asks only that every citation has the fields \<^verbatim>\<open>id\<close> and
  \<^verbatim>\<open>score\<close>. That is not enough: both responses below have them, and the loop raises
  on the first citation, because the score, a JSON integer of 401 digits in the first and
  a JSON string in the second, cannot be formatted with \<^verbatim>\<open>.2f\<close>.
\<close>

theorem citation_loop_raises_on_unformattable_score:
  "list_all has_id_and_score
     [PyDict [(''id'', PyStr ''paper-llm''), (''score'', PyInt (10 ^ 400)),
              (''url'', PyStr ''https://papers.example.com/rag'')]]
   \<and> print_citations
     [PyDict [(''id'', PyStr ''paper-llm''), (''score'', PyInt (10 ^ 400)),
              (''url'', PyStr ''https://papers.example.com/rag'')]]
     = ([], Some (Exc ''OverflowError''))
   \<and> list_all has_id_and_score
     [PyDict [(''id'', PyStr ''paper-llm''), (''score'', PyStr ''0.91'')]]
   \<and> print_citations
     [PyDict [(''id'', PyStr ''paper-llm''), (''score'', PyStr ''0.91'')]]
     = ([], Some (Exc ''ValueError''))"
  by (simp add: cite_line_def py_subscript_def int_fits_float_def)

text \<open>
  When the index call raises, the demo ends with that exception after its first line of
  output and never sends the RAG request.
\<close>

theorem index_failure_stops_demo:
  assumes "net [] \<lparr>url = ''http://localhost:5213/v1/semantic/index'', http_method = ''POST'',
       headers = [(''Content-Type'', ''application/json'')], body = DOCUMENTS\<rparr> = Inl e"
  shows "digest_main net =
     \<lparr>shown = [[Lit ''Indexing academic snippets...'']],
      requests = [\<lparr>url = ''http://localhost:5213/v1/semantic/index'', http_method = ''POST'',
                   headers = [(''Content-Type'', ''application/json'')], body = DOCUMENTS\<rparr>],
      failure = Some e\<rparr>"
  using assms
  by (simp add: digest_main_def post_json_serializable json_serializable_DOCUMENTS
      API_BASE_def Let_def)

theorem index_failure_stops_demo_witness:
  "(\<lambda>sent req. Inl (Exc ''URLError'')) [] \<lparr>url = ''http://localhost:5213/v1/semantic/index'',
       http_method = ''POST'', headers = [(''Content-Type'', ''application/json'')],
       body = DOCUMENTS\<rparr> = (Inl (Exc ''URLError'') :: py_exc + py_value)
   \<and> digest_main (\<lambda>sent req. Inl (Exc ''URLError'')) =
     \<lparr>shown = [[Lit ''Indexing academic snippets...'']],
      requests = [\<lparr>url = ''http://localhost:5213/v1/semantic/index'', http_method = ''POST'',
                   headers = [(''Content-Type'', ''application/json'')], body = DOCUMENTS\<rparr>],
      failure = Some (Exc ''URLError'')\<rparr>"
  using index_failure_stops_demo [of "\<lambda>sent req. Inl (Exc ''URLError'')" "Exc ''URLError''"]
  by simp

section \<open>Properties of the semantic index service\<close>

subsection \<open>Document Store\<close>

lemma stored_after_Cons: "stored_after st (d # ds) = stored_after (st(doc_id d \<mapsto> d)) ds"
  by (simp add: stored_after_def fun_eq_iff map_add_def split: option.splits)

lemma putAll_eq:
  "putAll embedder ds st =
     (case first_rejection ds of
        Some e \<Rightarrow> Inl e
      | None \<Rightarrow> Inr (stored_after st ds, map (\<lambda>d. (doc_id d, embedder (doc_text d))) ds))"
proof (induction ds arbitrary: st)
  case Nil
  show ?case by (simp add: stored_after_def)
next
  case (Cons d ds)
  show ?case
    by (simp add: put_def Cons.IH stored_after_Cons split: option.splits)
qed

subsection \<open>Vector Index\<close>

lemma keys_replace: "map fst (map (\<lambda>p. if fst p = i then (i, e) else p) idx) = map fst idx"
  by (induction idx) simp_all

lemma map_of_replace:
  "map_of (map (\<lambda>p. if fst p = i then (i, e) else p) idx) x =
     (if x = i \<and> i \<in> fst ` set idx then Some e else map_of idx x)"
proof (induction idx)
  case Nil
  show ?case by simp
next
  case (Cons p idx)
  show ?case
  proof (cases "fst p = i")
    case True
    then show ?thesis using Cons.IH by (cases p) simp
  next
    case False
    then show ?thesis using Cons.IH by (cases p) (auto split: if_splits)
  qed
qed

lemma map_of_insert_entry:
  "map_of (insert_entry i e idx) = (map_of idx)(i \<mapsto> e)"
proof (cases "i \<in> fst ` set idx")
  case False
  then have "map_of idx i = None" by (simp add: map_of_eq_None_iff)
  with False show ?thesis
    by (auto simp add: insert_entry_def fun_eq_iff map_add_def split: option.splits)
next
  case True
  then show ?thesis by (simp add: insert_entry_def fun_eq_iff map_of_replace)
qed

lemma keys_insert_entry:
  "map fst (insert_entry i e idx) = (if i \<in> set (map fst idx) then map fst idx else map fst idx @ [i])"
  using keys_replace[of i e idx] by (simp add: insert_entry_def)

lemma distinct_insert_entry:
  "distinct (map fst idx) \<Longrightarrow> distinct (map fst (insert_entry i e idx))"
  by (simp add: keys_insert_entry)

lemma replace_idem:
  "map (\<lambda>p. if fst p = i then (i, e) else p) (map (\<lambda>p. if fst p = i then (i, e) else p) idx)
     = map (\<lambda>p. if fst p = i then (i, e) else p) idx"
  by (induction idx) simp_all

lemma replace_absent:
  "i \<notin> fst ` set idx \<Longrightarrow> map (\<lambda>p. if fst p = i then (i, e) else p) idx = idx"
  by (induction idx) auto

lemma insert_entry_idem: "insert_entry i e (insert_entry i e idx) = insert_entry i e idx"
proof (cases "i \<in> fst ` set idx")
  case True
  have "fst ` set (map (\<lambda>p. if fst p = i then (i, e) else p) idx) = fst ` set idx"
    using keys_replace[of i e idx] by (metis set_map)
  with True show ?thesis by (simp add: insert_entry_def replace_idem)
next
  case False
  then show ?thesis by (simp add: insert_entry_def replace_absent)
qed

lemma count_distinct_key:
  "distinct (map fst idx) \<Longrightarrow> i \<in> fst ` set idx \<Longrightarrow> length (filter (\<lambda>p. fst p = i) idx) = 1"
proof (induction idx)
  case Nil
  then show ?case by simp
next
  case (Cons p idx)
  show ?case
  proof (cases "fst p = i")
    case True
    with Cons.prems have "i \<notin> fst ` set idx" by simp
    then have "filter (\<lambda>p. fst p = i) idx = []"
      by (auto simp add: filter_empty_conv)
    with True show ?thesis by simp
  next
    case False
    with Cons show ?thesis by simp
  qed
qed

lemma count_insert_entry:
  assumes "distinct (map fst idx)"
  shows "length (filter (\<lambda>p. fst p = i) (insert_entry i e idx)) = 1"
proof -
  have "distinct (map fst (insert_entry i e idx))"
    using assms by (rule distinct_insert_entry)
  moreover have "i \<in> fst ` set (insert_entry i e idx)"
    using keys_insert_entry[of i e idx] by (metis (full_types) list.set_map in_set_conv_decomp)
  ultimately show ?thesis by (rule count_distinct_key)
qed


lemma distinct_fold_insert:
  "distinct (map fst idx) \<Longrightarrow> distinct (map fst (fold (\<lambda>p. insert_entry (fst p) (snd p)) entries idx))"
  by (induction entries arbitrary: idx) (simp_all add: distinct_insert_entry)

lemma map_of_fold_insert:
  "map_of (fold (\<lambda>p. insert_entry (fst p) (snd p)) entries idx) = map_of idx ++ map_of (rev entries)"
proof (induction entries arbitrary: idx)
  case Nil
  show ?case by simp
next
  case (Cons p entries)
  show ?case
    by (cases p) (simp add: Cons.IH map_of_insert_entry fun_eq_iff map_add_def split: option.splits)
qed

subsection \<open>Indexing\<close>

text \<open>No history of \<^verbatim>\<open>index\<close> calls gives the Vector Index two entries for one id.\<close>

lemma distinct_index:
  "distinct (map fst (vindex s)) \<Longrightarrow> distinct (map fst (vindex (snd (index embedder ds s))))"
  by (simp add: index_def putAll_eq distinct_fold_insert split: option.splits)

lemma distinct_fold_index:
  "distinct (map fst (vindex s)) \<Longrightarrow>
   distinct (map fst (vindex (fold (\<lambda>ds s. snd (index embedder ds s)) batches s)))"
  by (induction batches arbitrary: s) (simp_all add: distinct_index)

lemma distinct_after_calls: "distinct (map fst (vindex (after_calls embedder batches)))"
  unfolding after_calls_def by (rule distinct_fold_index) (simp add: empty_service_def)

lemma index_single:
  "validate d = None \<Longrightarrow> index embedder [d] s =
     (None, \<lparr>store = (store s)(doc_id d \<mapsto> d),
             vindex = insert_entry (doc_id d) (embedder (doc_text d)) (vindex s)\<rparr>)"
  by (simp add: index_def put_def)

lemma index_twice_batch:
  "validate d = None \<Longrightarrow> index embedder [d, d] s = index embedder [d] s"
  by (simp add: index_def put_def insert_entry_idem)

text \<open>
  Claim C6. Indexing is idempotent. Take the service after any history of \<^verbatim>\<open>index\<close>
  calls and any document that passes validation. Indexing the document succeeds;
  indexing it a second time succeeds and leaves the state exactly as the first call left
  it; a batch that holds the document twice has the effect of a batch that holds it once;
  the Vector Index then has exactly one entry for the document's id; and \<^verbatim>\<open>search\<close> and
  \<^verbatim>\<open>retrieve\<close> answer every query as they did after the first call.
\<close>

theorem index_idempotent:
  fixes embedder :: "string \<Rightarrow> 'e" and batches :: "document list list"
    and s s1 s2 :: "'e service"
  assumes valid: "validate d = None"
  defines "s \<equiv> after_calls embedder batches"
  defines "s1 \<equiv> snd (index embedder [d] s)"
  defines "s2 \<equiv> snd (index embedder [d] s1)"
  shows "fst (index embedder [d] s) = None \<and> fst (index embedder [d] s1) = None
    \<and> s2 = s1
    \<and> index embedder [d, d] s = index embedder [d] s
    \<and> length (filter (\<lambda>p. fst p = doc_id d) (vindex s2)) = 1
    \<and> search sim q k (vindex s2) = search sim q k (vindex s1)
    \<and> retrieve embedder sim s2 query k = retrieve embedder sim s1 query k"
proof -
  have eq: "s2 = s1"
    unfolding s2_def s1_def by (simp add: index_single [OF valid] insert_entry_idem)
  have "distinct (map fst (vindex s))"
    unfolding s_def by (rule distinct_after_calls)
  then have one: "length (filter (\<lambda>p. fst p = doc_id d) (vindex s1)) = 1"
    unfolding s1_def by (simp add: index_single [OF valid] count_insert_entry)
  show ?thesis
    using eq one by (simp add: index_single [OF valid] index_twice_batch [OF valid])
qed

theorem index_idempotent_witness:
  "validate doc_eval = None
   \<and> snd (index length_embedder [doc_eval]
          (snd (index length_embedder [doc_eval] (after_calls length_embedder [[doc_llm]]))))
       = snd (index length_embedder [doc_eval] (after_calls length_embedder [[doc_llm]]))
   \<and> length (filter (\<lambda>p. fst p = doc_id doc_eval)
         (vindex (snd (index length_embedder [doc_eval]
            (snd (index length_embedder [doc_eval] (after_calls length_embedder [[doc_llm]]))))))) = 1
   \<and> vindex (snd (index length_embedder [doc_eval] (after_calls length_embedder [[doc_llm]])))
       = [(''paper-llm'', 35), (''paper-eval'', 18)]"
proof -
  have h: "validate doc_eval = None"
    by (simp add: validate_def doc_eval_def)
  have v: "vindex (snd (index length_embedder [doc_eval] (after_calls length_embedder [[doc_llm]])))
       = [(''paper-llm'', 35), (''paper-eval'', 18)]"
    by (simp add: after_calls_def index_def put_def validate_def doc_llm_def doc_eval_def
        empty_service_def insert_entry_def length_embedder_def)
  show ?thesis
    using h v
      index_idempotent [OF h, where embedder = length_embedder and batches = "[[doc_llm]]"
        and sim = closeness and q = 35 and k = 2 and query = "''language models''"]
    by blast
qed

subsection \<open>Retrieval\<close>

lemma sorted_desc_sort_key:
  "sorted_wrt (\<lambda>a b. snd b \<le> (snd a :: real)) (sort_key (\<lambda>p. - snd p) xs)"
proof -
  have "sorted (map (\<lambda>p. - snd p) (sort_key (\<lambda>p. - snd p) xs))"
    by (rule sorted_sort_key)
  then show ?thesis by (simp add: sorted_map)
qed

lemma resolve_snd: "resolve st hit = Some r \<Longrightarrow> snd r = snd hit"
  by (auto simp add: resolve_def split: option.splits)

lemma sorted_map_filter_resolve:
  "sorted_wrt (\<lambda>a b. snd b \<le> (snd a :: real)) hits \<Longrightarrow>
   sorted_wrt (\<lambda>a b. snd b \<le> snd a) (List.map_filter (resolve st) hits)"
proof (induction hits)
  case Nil
  show ?case by (simp add: List.map_filter_simps)
next
  case (Cons h hits)
  then have IH: "sorted_wrt (\<lambda>a b. snd b \<le> snd a) (List.map_filter (resolve st) hits)"
    and le: "\<forall>x\<in>set hits. snd x \<le> snd h" by simp_all
  show ?case
  proof (cases "resolve st h")
    case None
    then show ?thesis using IH by (simp add: List.map_filter_simps)
  next
    case (Some r)
    have "\<forall>y\<in>set (List.map_filter (resolve st) hits). snd y \<le> snd r"
    proof
      fix y assume "y \<in> set (List.map_filter (resolve st) hits)"
      then obtain x where "x \<in> set hits" "resolve st x = Some y"
        by (auto simp add: List.map_filter_def)
      then show "snd y \<le> snd r"
        using le resolve_snd [OF Some] resolve_snd [of st x y] by auto
    qed
    then show ?thesis using IH Some by (simp add: List.map_filter_simps)
  qed
qed

lemma length_map_filter_le: "length (List.map_filter f xs) \<le> length xs"
  by (simp add: List.map_filter_def)

text \<open>
  Claim C7. For every \<open>k \<ge> 1\<close> and every service whose Vector Index is not empty,
  \<^verbatim>\<open>retrieve(query, k)\<close> returns a result, of at most \<open>k\<close> documents, ordered by
  non-increasing score.
\<close>

theorem retrieve_at_most_k_sorted:
  assumes "1 \<le> k" and "vindex s \<noteq> []"
  shows "\<exists>rs. retrieve embedder sim s query k = Inr rs
           \<and> int (length rs) \<le> k
           \<and> sorted_wrt (\<lambda>a b. snd b \<le> snd a) rs"
proof -
  let ?hits = "take (nat k) (sort_key (\<lambda>p. - snd p) (map (\<lambda>p. (fst p, sim (embedder query) (snd p))) (vindex s)))"
  have r: "retrieve embedder sim s query k = Inr (List.map_filter (resolve (store s)) ?hits)"
    using assms(2) by (simp add: retrieve_def search_def)
  have "length (List.map_filter (resolve (store s)) ?hits) \<le> length ?hits"
    by (rule length_map_filter_le)
  also have "\<dots> \<le> nat k" by simp
  finally have len: "int (length (List.map_filter (resolve (store s)) ?hits)) \<le> k"
    using assms(1) by simp
  have "sorted_wrt (\<lambda>a b. snd b \<le> snd a) ?hits"
    by (rule sorted_wrt_take) (rule sorted_desc_sort_key)
  then have "sorted_wrt (\<lambda>a b. snd b \<le> snd a) (List.map_filter (resolve (store s)) ?hits)"
    by (rule sorted_map_filter_resolve)
  with r len show ?thesis by blast
qed


theorem retrieve_at_most_k_sorted_witness:
  "(1::int) \<le> 2 \<and> vindex sample_service \<noteq> []
   \<and> (\<exists>rs. retrieve length_embedder closeness sample_service
               ''retrieval augmented language models'' 2 = Inr rs
           \<and> int (length rs) \<le> 2
           \<and> sorted_wrt (\<lambda>a b. snd b \<le> snd a) rs)"
proof -
  have h1: "(1::int) \<le> 2" by simp
  have h2: "vindex sample_service \<noteq> []" by (simp add: sample_service_def)
  show ?thesis
    using h1 h2 retrieve_at_most_k_sorted [OF h1 h2] by blast
qed

subsection \<open>Batches\<close>

lemma map_of_keyed:
  "map_of (map (\<lambda>d. (f d, g d)) xs) k = map_option g (map_of (map (\<lambda>d. (f d, d)) xs) k)"
  by (induction xs) simp_all

lemma map_of_keyed_in:
  "x \<in> set xs \<Longrightarrow> \<exists>y. map_of (map (\<lambda>d. (f d, d)) xs) (f x) = Some y \<and> y \<in> set xs \<and> f y = f x"
  by (induction xs) auto

lemma batch_stored:
  fixes embedder :: "string \<Rightarrow> 'e"
  assumes "d \<in> set ds"
  shows "case stored_after st ds (doc_id d) of
           None \<Rightarrow> False
         | Some d' \<Rightarrow> d' \<in> set ds \<and> doc_id d' = doc_id d
             \<and> map_of (fold (\<lambda>p. insert_entry (fst p) (snd p))
                   (map (\<lambda>d. (doc_id d, embedder (doc_text d))) ds) idx) (doc_id d)
                 = Some (embedder (doc_text d'))"
proof -
  from assms have "d \<in> set (rev ds)" by simp
  then obtain y where y: "map_of (map (\<lambda>d. (doc_id d, d)) (rev ds)) (doc_id d) = Some y"
    "y \<in> set (rev ds)" "doc_id y = doc_id d"
    using map_of_keyed_in [of d "rev ds" doc_id] by blast
  have st: "stored_after st ds (doc_id d) = Some y"
    using y(1) by (simp add: stored_after_def rev_map map_add_def)
  have "map_of (rev (map (\<lambda>d. (doc_id d, embedder (doc_text d))) ds)) (doc_id d)
        = Some (embedder (doc_text y))"
    using y(1) map_of_keyed [of doc_id "\<lambda>d. embedder (doc_text d)" "rev ds" "doc_id d"]
    by (simp add: rev_map)
  then have "map_of (fold (\<lambda>p. insert_entry (fst p) (snd p))
                   (map (\<lambda>d. (doc_id d, embedder (doc_text d))) ds) idx) (doc_id d)
                 = Some (embedder (doc_text y))"
    by (simp add: map_of_fold_insert map_add_def)
  with st y show ?thesis by simp
qed

text \<open>
  Claim C8. A batch is all-or-nothing. If a document of the batch fails validation,
  \<^verbatim>\<open>putAll\<close> rejects the batch with the error of the first such document, and the
  Document Store and the Vector Index that readers see are the ones from before the call.
  Otherwise the call succeeds and every document of the batch is stored: the store is the
  old one overwritten by the batch in order, and every id of the batch resolves to a
  document of the batch with that id (the last one put) whose embedding is the entry of
  the Vector Index for that id.
\<close>

theorem putAll_all_or_nothing:
  fixes embedder :: "string \<Rightarrow> 'e" and s :: "'e service"
  shows "case first_rejection ds of
        Some e \<Rightarrow> putAll embedder ds (store s) = Inl e \<and> index embedder ds s = (Some e, s)
      | None \<Rightarrow>
          fst (index embedder ds s) = None
          \<and> store (snd (index embedder ds s)) = stored_after (store s) ds
          \<and> list_all
               (\<lambda>d. case store (snd (index embedder ds s)) (doc_id d) of
                      None \<Rightarrow> False
                    | Some d' \<Rightarrow> d' \<in> set ds \<and> doc_id d' = doc_id d
                        \<and> map_of (vindex (snd (index embedder ds s))) (doc_id d)
                            = Some (embedder (doc_text d'))) ds"
proof (cases "first_rejection ds")
  case (Some e)
  then show ?thesis by (simp add: index_def putAll_eq)
next
  case None
  have "list_all
          (\<lambda>d. case stored_after (store s) ds (doc_id d) of
                 None \<Rightarrow> False
               | Some d' \<Rightarrow> d' \<in> set ds \<and> doc_id d' = doc_id d
                   \<and> map_of (fold (\<lambda>p. insert_entry (fst p) (snd p))
                         (map (\<lambda>d. (doc_id d, embedder (doc_text d))) ds) (vindex s)) (doc_id d)
                       = Some (embedder (doc_text d'))) ds"
    unfolding list_all_iff
    using batch_stored [where ds = ds and st = "store s" and embedder = embedder and idx = "vindex s"]
    by blast
  moreover have "index embedder ds s =
      (None, \<lparr>store = stored_after (store s) ds,
              vindex = fold (\<lambda>p. insert_entry (fst p) (snd p))
                         (map (\<lambda>d. (doc_id d, embedder (doc_text d))) ds) (vindex s)\<rparr>)"
    using None by (simp add: index_def putAll_eq)
  ultimately show ?thesis using None by (simp cong: option.case_cong)
qed

theorem putAll_all_or_nothing_witness:
  "index length_embedder [doc_llm, \<lparr>doc_id = ''paper-void'', doc_text = [], doc_metadata = []\<rparr>]
     sample_service = (Some (ValidationError ''text''), sample_service)
   \<and> fst (index length_embedder [doc_llm, doc_eval] (empty_service :: nat service)) = None
   \<and> store (snd (index length_embedder [doc_llm, doc_eval] (empty_service :: nat service)))
       = stored_after Map.empty [doc_llm, doc_eval]"
proof -
  have r: "first_rejection [doc_llm, \<lparr>doc_id = ''paper-void'', doc_text = [], doc_metadata = []\<rparr>]
           = Some (ValidationError ''text'')"
    by (simp add: validate_def doc_llm_def)
  have a: "first_rejection [doc_llm, doc_eval] = None"
    by (simp add: validate_def doc_llm_def doc_eval_def)
  have e: "store (empty_service :: nat service) = Map.empty"
    by (simp add: empty_service_def)
  show ?thesis
    using
      putAll_all_or_nothing [where embedder = length_embedder and s = sample_service
        and ds = "[doc_llm, \<lparr>doc_id = ''paper-void'', doc_text = [], doc_metadata = []\<rparr>]",
        unfolded r]
      putAll_all_or_nothing [where embedder = length_embedder
        and s = "empty_service :: nat service" and ds = "[doc_llm, doc_eval]", unfolded a]
    by (simp add: e)
qed

end
